theory Spec2Isabelle
  imports Complex_Main "HOL-Library.Multiset"
begin

section \<open>JavaScript values, errors and completions\<close>

text \<open>
  The worker source \<^verbatim>\<open>src/source/geojson_worker_source.js\<close> receives parsed JSON and
  tests it with \<^verbatim>\<open>!data\<close> and \<^verbatim>\<open>typeof data !== 'object'\<close>. The values that can
  reach these tests are the JSON values and \<^verbatim>\<open>undefined\<close>.
\<close>

datatype jsvalue =
    JUndefined
  | JNull
  | JBool bool
  | JNumber real
  | JString string
  | JArray "jsvalue list"
  | JObject "(string \<times> jsvalue) list"

text \<open>\<^verbatim>\<open>!!v\<close>: the values JavaScript treats as true in a condition.\<close>

fun truthy :: "jsvalue \<Rightarrow> bool" where
  "truthy JUndefined = False"
| "truthy JNull = False"
| "truthy (JBool b) = b"
| "truthy (JNumber r) = (r \<noteq> 0)"
| "truthy (JString s) = (s \<noteq> [])"
| "truthy (JArray _) = True"
| "truthy (JObject _) = True"

text \<open>\<^verbatim>\<open>typeof v === 'object'\<close> (true of \<^verbatim>\<open>null\<close>, arrays and objects).\<close>

fun typeof_object :: "jsvalue \<Rightarrow> bool" where
  "typeof_object JNull = True"
| "typeof_object (JArray _) = True"
| "typeof_object (JObject _) = True"
| "typeof_object _ = False"

text \<open>Property read \<^verbatim>\<open>v.k\<close> on a value that is not \<^verbatim>\<open>null\<close> or \<^verbatim>\<open>undefined\<close>.\<close>

fun getProp :: "jsvalue \<Rightarrow> string \<Rightarrow> jsvalue" where
  "getProp (JObject kvs) k = (case map_of kvs k of Some v \<Rightarrow> v | None \<Rightarrow> JUndefined)"
| "getProp _ k = JUndefined"

text \<open>
  Errors are values. \<open>Error m\<close> is \<^verbatim>\<open>new Error(m)\<close>; \<open>TypeError m\<close> is what the
  engine raises on a property read of \<^verbatim>\<open>undefined\<close>.
\<close>

datatype error = Error string | TypeError string

definition invalidGeoJSON :: error where
  "invalidGeoJSON = Error ''Input data is not a valid GeoJSON object.''"

text \<open>
  A call either completes through its callback with a null error and a value
  (\<open>Callback v\<close> is \<^verbatim>\<open>callback(null, v)\<close>) or raises.
\<close>

datatype 'a outcome = Callback 'a | Throws error

section \<open>Features and indexes\<close>

type_synonym point = "real \<times> real"
type_synonym bbox = "real \<times> real \<times> real \<times> real"

text \<open>
  \<^verbatim>\<open>maxCount = params.maxCount || Infinity\<close> is either a finite number or
  \<^verbatim>\<open>Infinity\<close>; the same value is the \<^verbatim>\<open>limit\<close> argument of \<^verbatim>\<open>getLeaves\<close>.
\<close>

datatype jscount = Finite int | Infinity

text \<open>
  A feature as \<^verbatim>\<open>getPointListData\<close> reads it: \<^verbatim>\<open>cluster.i\<close>,
  \<^verbatim>\<open>cluster.properties\<close> (\<open>None\<close> when it is not an object),
  \<^verbatim>\<open>cluster.properties.cluster\<close>, \<^verbatim>\<open>cluster.properties.cluster_id\<close> and
  \<^verbatim>\<open>cluster.geometry.coordinates\<close>.
\<close>

record properties =
  cluster :: bool
  cluster_id :: int

record feature =
  feature_i :: int
  properties :: "properties option"
  coordinates :: point

text \<open>
  \<^verbatim>\<open>_geoJSONIndexes[source]\<close> holds what \<^verbatim>\<open>supercluster(...).load(...)\<close> or
  \<^verbatim>\<open>geojsonvt(...)\<close> returned. Both libraries are outside the repository; an index is
  given by the methods the worker calls on it. Only a supercluster index has
  \<^verbatim>\<open>getClusters\<close> and \<^verbatim>\<open>getLeaves\<close>.
\<close>

datatype GeoJSONIndex =
    Supercluster
      (getClusters: "bbox \<Rightarrow> real \<Rightarrow> feature list")
      (getLeaves: "int \<Rightarrow> real \<Rightarrow> jscount \<Rightarrow> feature list")
      (getTile: "real \<Rightarrow> int \<Rightarrow> int \<Rightarrow> feature list option")
  | GeoJSONVT
      (getTile: "real \<Rightarrow> int \<Rightarrow> int \<Rightarrow> feature list option")

section \<open>The worker's state and the ingest path\<close>

text \<open>
  \<^verbatim>\<open>this._geoJSONIndexes\<close> maps source ids to indexes; \<^verbatim>\<open>this.loaded\<close> (a field of
  the parent class) maps a source id to the object whose keys are the uids of the tiles
  loaded for it.
\<close>

record GeoJSONWorkerSource =
  geoJSONIndexes :: "string \<rightharpoonup> GeoJSONIndex"
  loaded :: "string \<rightharpoonup> nat set"

record RequestParameters =
  url :: string

record LoadGeoJSONParameters =
  request :: "RequestParameters option"
  data :: jsvalue
  source :: string
  cluster :: bool
  superclusterOptions :: jsvalue
  geojsonVtOptions :: jsvalue

text \<open>
  The collaborators the ingest path calls and the repository does not contain:
  \<^verbatim>\<open>ajax.getJSON\<close> (what it passes to the callback), \<^verbatim>\<open>JSON.parse\<close> (a value or
  a raised error), \<^verbatim>\<open>rewind(data, true)\<close> of geojson-rewind,
  \<^verbatim>\<open>supercluster(options).load(features)\<close> and \<^verbatim>\<open>geojsonvt(data, options)\<close>
  (an index or a raised error).
\<close>

record env =
  getJSON :: "RequestParameters \<Rightarrow> error option \<times> jsvalue"
  JSON_parse :: "string \<Rightarrow> error + jsvalue"
  rewind :: "jsvalue \<Rightarrow> jsvalue"
  supercluster_load :: "jsvalue \<Rightarrow> jsvalue \<Rightarrow> error + GeoJSONIndex"
  geojsonvt :: "jsvalue \<Rightarrow> jsvalue \<Rightarrow> error + GeoJSONIndex"

text \<open>
  \<^verbatim>\<open>loadGeoJSON(params, callback)\<close>, lines 296-312. The result is the pair
  \<open>(err, data)\<close> the callback receives.
\<close>

definition loadGeoJSON :: "env \<Rightarrow> LoadGeoJSONParameters \<Rightarrow> error option \<times> jsvalue" where
  "loadGeoJSON E params =
     (case request params of
        Some r \<Rightarrow> getJSON E r
      | None \<Rightarrow>
          (case data params of
             JString s \<Rightarrow>
               (case JSON_parse E s of
                  Inr v \<Rightarrow> (None, v)
                | Inl e \<Rightarrow> (Some invalidGeoJSON, JUndefined))
           | _ \<Rightarrow> (Some invalidGeoJSON, JUndefined)))"

text \<open>
  The expression inside the \<^verbatim>\<open>try\<close> of \<^verbatim>\<open>loadData\<close>, lines 129-131:
  \<^verbatim>\<open>params.cluster ? supercluster(params.superclusterOptions).load(data.features)
  : geojsonvt(data, params.geojsonVtOptions)\<close>.
\<close>

definition buildIndex :: "env \<Rightarrow> LoadGeoJSONParameters \<Rightarrow> jsvalue \<Rightarrow> error + GeoJSONIndex" where
  "buildIndex E params d =
     (if LoadGeoJSONParameters.cluster params
      then supercluster_load E (superclusterOptions params) (getProp d ''features'')
      else geojsonvt E d (geojsonVtOptions params))"

text \<open>
  \<^verbatim>\<open>loadData(params, callback)\<close>, lines 119-140. \<open>load\<close> is \<^verbatim>\<open>this.loadGeoJSON\<close>,
  which the constructor lets a caller replace. The result is the error passed to
  \<^verbatim>\<open>callback\<close> (\<open>None\<close> for \<^verbatim>\<open>null\<close> or \<^verbatim>\<open>undefined\<close>) and the worker's state
  afterwards.
\<close>

definition loadData ::
  "(LoadGeoJSONParameters \<Rightarrow> error option \<times> jsvalue) \<Rightarrow> env \<Rightarrow> GeoJSONWorkerSource \<Rightarrow>
     LoadGeoJSONParameters \<Rightarrow> error option \<times> GeoJSONWorkerSource" where
  "loadData load E w params =
     (case load params of (err, d) \<Rightarrow>
        if err \<noteq> None \<or> \<not> truthy d then (err, w)
        else if \<not> typeof_object d then (Some invalidGeoJSON, w)
        else
          (case buildIndex E params (rewind E d) of
             Inl e \<Rightarrow> (Some e, w)
           | Inr idx \<Rightarrow>
               (None,
                w\<lparr>geoJSONIndexes := (geoJSONIndexes w)(source params \<mapsto> idx),
                  loaded := (loaded w)(source params \<mapsto> {})\<rparr>)))"

text \<open>\<^verbatim>\<open>removeSource(params, callback)\<close>, lines 314-319, on \<^verbatim>\<open>params.source\<close>.\<close>

definition removeSource :: "GeoJSONWorkerSource \<Rightarrow> string \<Rightarrow> GeoJSONWorkerSource" where
  "removeSource w src =
     (if geoJSONIndexes w src \<noteq> None
      then w\<lparr>geoJSONIndexes := (geoJSONIndexes w)(src := None)\<rparr>
      else w)"



section \<open>The point list\<close>

record getPointListDataParameters =
  bounds :: bbox
  zoom :: real
  maxCount :: "int option"
  source :: string
  minzoom :: real
  maxzoom :: real
  center :: "point option"
  travellingSalesmanApprox :: bool

text \<open>
  The \<^verbatim>\<open>result\<close> object, and what reaches the callback: the object itself
  (\<open>ResultObject\<close>) or the string \<^verbatim>\<open>JSON.stringify(result)\<close> (\<open>ResultJSON\<close>).
  \<^verbatim>\<open>clusterLookup\<close> is an object used as a dictionary: assigning to a key that is
  present overwrites it.
\<close>

record result =
  apartmentIds :: "int list"
  clusterLookup :: "int \<rightharpoonup> int"

datatype reply = ResultObject result | ResultJSON result

definition emptyResult :: result where
  "emptyResult = \<lparr>apartmentIds = [], clusterLookup = Map.empty\<rparr>"

text \<open>
  One entry of \<^verbatim>\<open>allClustersData\<close>; \<^verbatim>\<open>distanceSort\<close> adds the property
  \<^verbatim>\<open>distance\<close> to each entry.
\<close>

record allClusterData =
  clusterId :: int
  coordinates :: point
  apartmentIds :: "int list"

record sortedClusterData = allClusterData +
  distance :: real

text \<open>
  Line 158, \<^verbatim>\<open>Math.max(Math.min(Math.floor(params.zoom), params.maxzoom), params.minzoom)\<close>,
  and line 159, \<^verbatim>\<open>params.maxCount || Infinity\<close>: an absent \<^verbatim>\<open>maxCount\<close> and the
  number 0 are both falsy. \<^verbatim>\<open>maxCount\<close> is a count, taken here as an integer.
\<close>

definition effectiveZoom :: "getPointListDataParameters \<Rightarrow> real" where
  "effectiveZoom params =
     max (min (of_int \<lfloor>zoom params\<rfloor>) (maxzoom params)) (minzoom params)"

definition effectiveMaxCount :: "int option \<Rightarrow> jscount" where
  "effectiveMaxCount mc =
     (case mc of None \<Rightarrow> Infinity | Some k \<Rightarrow> if k = 0 then Infinity else Finite k)"

text \<open>\<^verbatim>\<open>apartmentsCnt >= maxCount\<close>.\<close>

fun reached :: "nat \<Rightarrow> jscount \<Rightarrow> bool" where
  "reached cnt (Finite k) = (k \<le> int cnt)"
| "reached cnt Infinity = False"

definition getBboxArrCenter :: "bbox \<Rightarrow> point" where
  "getBboxArrCenter bbox =
     (case bbox of (b0, b1, b2, b3) \<Rightarrow> ((b0 + b2) / 2, (b1 + b3) / 2))"

text \<open>
  \<^verbatim>\<open>calculateDistarnce(a, b)\<close>, lines 255-257. JavaScript numbers are IEEE doubles;
  the model computes with exact reals, so rounding, overflow to an infinity and the
  \<^verbatim>\<open>NaN\<close> that follows from it are outside the model.
\<close>

definition calculateDistarnce :: "point \<Rightarrow> point \<Rightarrow> real" where
  "calculateDistarnce a b = (fst a - fst b) ^ 2 + (snd a - snd b) ^ 2"

text \<open>
  Lines 174-187: a feature whose \<^verbatim>\<open>properties.cluster\<close> is not \<^verbatim>\<open>true\<close> is its own
  group, with its own \<^verbatim>\<open>i\<close> as group id; an aggregate is expanded by
  \<^verbatim>\<open>getLeaves(clusterId, zoom, maxCount)\<close>.
\<close>

definition clusterMembers ::
  "(int \<Rightarrow> real \<Rightarrow> jscount \<Rightarrow> feature list) \<Rightarrow> real \<Rightarrow> jscount \<Rightarrow> feature \<Rightarrow> int \<times> feature list" where
  "clusterMembers gl z mc c =
     (case properties c of
        None \<Rightarrow> (feature_i c, [c])
      | Some ps \<Rightarrow>
          if properties.cluster ps
          then (cluster_id ps, gl (cluster_id ps) z mc)
          else (feature_i c, [c]))"

text \<open>
  The loop of lines 173-203 over \<^verbatim>\<open>clusters\<close>, with \<^verbatim>\<open>apartmentsCnt\<close> as
  \<open>cnt\<close>. \<^verbatim>\<open>clusterFeatures[0].geometry\<close> raises when \<^verbatim>\<open>getLeaves\<close> returned an
  empty array. Every feature of the group is pushed before the test of line 200.
\<close>

fun collectClusters ::
  "(int \<Rightarrow> real \<Rightarrow> jscount \<Rightarrow> feature list) \<Rightarrow> real \<Rightarrow> jscount \<Rightarrow> feature list \<Rightarrow> nat \<Rightarrow>
     error + allClusterData list" where
  "collectClusters gl z mc [] cnt = Inr []"
| "collectClusters gl z mc (c # cs) cnt =
     (case clusterMembers gl z mc c of (cid, fs) \<Rightarrow>
        (case fs of
           [] \<Rightarrow> Inl (TypeError ''clusterFeatures[0] is undefined'')
         | f # _ \<Rightarrow>
             if reached (cnt + length fs) mc
             then Inr [\<lparr>clusterId = cid, coordinates = feature.coordinates f,
                        apartmentIds = map feature_i fs\<rparr>]
             else
               (case collectClusters gl z mc cs (cnt + length fs) of
                  Inl e \<Rightarrow> Inl e
                | Inr gs \<Rightarrow>
                    Inr (\<lparr>clusterId = cid, coordinates = feature.coordinates f,
                          apartmentIds = map feature_i fs\<rparr> # gs))))"

text \<open>
  \<^verbatim>\<open>Array.prototype.sort(compare)\<close> is a built-in of the language. For a
  comparator that is a consistent ordering it returns the elements in an order in which
  \<^verbatim>\<open>compare(a, b) <= 0\<close> for every \<^verbatim>\<open>a\<close> before \<^verbatim>\<open>b\<close>; it is modelled as the
  stable insertion sort (stability is what ECMAScript 2019 requires; an older engine may
  order elements of equal distance differently).
\<close>

fun sortInsert :: "('a \<Rightarrow> 'a \<Rightarrow> real) \<Rightarrow> 'a \<Rightarrow> 'a list \<Rightarrow> 'a list" where
  "sortInsert compare x [] = [x]"
| "sortInsert compare x (y # ys) =
     (if compare x y \<le> 0 then x # y # ys else y # sortInsert compare x ys)"

definition arraySort :: "('a \<Rightarrow> 'a \<Rightarrow> real) \<Rightarrow> 'a list \<Rightarrow> 'a list" where
  "arraySort compare xs = foldr (sortInsert compare) xs []"

text \<open>\<^verbatim>\<open>distanceSort(allClustersData, center)\<close>, lines 239-253.\<close>

definition withDistance :: "(point \<Rightarrow> point \<Rightarrow> real) \<Rightarrow> point \<Rightarrow> allClusterData \<Rightarrow> sortedClusterData" where
  "withDistance metric c g =
     \<lparr>clusterId = clusterId g, coordinates = allClusterData.coordinates g,
      apartmentIds = allClusterData.apartmentIds g,
      distance = metric c (allClusterData.coordinates g)\<rparr>"

definition distanceSort :: "allClusterData list \<Rightarrow> point \<Rightarrow> sortedClusterData list" where
  "distanceSort allClustersData c =
     (if allClustersData = [] then []
      else arraySort (\<lambda>a b. distance a - distance b)
             (map (withDistance calculateDistarnce c) allClustersData))"

section \<open>The tour approximation\<close>

text \<open>
  The numbers of \<^verbatim>\<open>TravellingSalesmanApproximation\<close>. Its normalisation divides by
  \<^verbatim>\<open>maxX - minX\<close>, which is 0 when all points share one x, and \<^verbatim>\<open>0 / 0\<close> is
  \<^verbatim>\<open>NaN\<close>; every comparison with \<^verbatim>\<open>NaN\<close> is false. A nonzero number divided by 0
  is an infinity, which the type does not have: each division of the class has the
  divisor as a factor of its dividend, so the dividend is 0 whenever the divisor is.
\<close>

datatype jsnum = Num real | NaN

fun js_lt :: "jsnum \<Rightarrow> jsnum \<Rightarrow> bool" where
  "js_lt (Num a) (Num b) = (a < b)"
| "js_lt _ _ = False"

fun js_add :: "jsnum \<Rightarrow> jsnum \<Rightarrow> jsnum" where
  "js_add (Num a) (Num b) = Num (a + b)"
| "js_add _ _ = NaN"

fun js_sub :: "jsnum \<Rightarrow> jsnum \<Rightarrow> jsnum" where
  "js_sub (Num a) (Num b) = Num (a - b)"
| "js_sub _ _ = NaN"

fun js_mul :: "jsnum \<Rightarrow> jsnum \<Rightarrow> jsnum" where
  "js_mul (Num a) (Num b) = Num (a * b)"
| "js_mul _ _ = NaN"

fun js_div :: "jsnum \<Rightarrow> jsnum \<Rightarrow> jsnum" where
  "js_div (Num a) (Num b) = (if b = 0 then NaN else Num (a / b))"
| "js_div _ _ = NaN"

fun js_sqrt :: "jsnum \<Rightarrow> jsnum" where
  "js_sqrt (Num a) = (if a < 0 then NaN else Num (sqrt a))"
| "js_sqrt NaN = NaN"

text \<open>\<^verbatim>\<open>this.bounds\<close>, whose four fields start as \<^verbatim>\<open>null\<close>.\<close>

record tsaBounds =
  minX :: "real option"
  minY :: "real option"
  maxX :: "real option"
  maxY :: "real option"

definition nullBounds :: tsaBounds where
  "nullBounds = \<lparr>minX = None, minY = None, maxX = None, maxY = None\<rparr>"

text \<open>In arithmetic \<^verbatim>\<open>null\<close> reads as 0.\<close>

definition numberOf :: "real option \<Rightarrow> real" where
  "numberOf v = (case v of None \<Rightarrow> 0 | Some r \<Rightarrow> r)"

text \<open>One pass of the first loop of \<^verbatim>\<open>normalizePoints\<close>, lines 399-417.\<close>

definition growBounds :: "point \<Rightarrow> tsaBounds \<Rightarrow> tsaBounds" where
  "growBounds pt b =
     (let polygonY = snd pt; polygonX = fst pt in
      \<lparr>minX = (if polygonX < numberOf (minX b) \<or> minX b = None then Some polygonX else minX b),
       minY = (if polygonY < numberOf (minY b) \<or> minY b = None then Some polygonY else minY b),
       maxX = (if polygonX > numberOf (maxX b) \<or> maxX b = None then Some polygonX else maxX b),
       maxY = (if polygonY > numberOf (maxY b) \<or> maxY b = None then Some polygonY else maxY b)\<rparr>)"

text \<open>
  \<^verbatim>\<open>(v - min) * extent / (max - min)\<close>, the expression of lines 423-430 and of the
  constructor's lines 346-353.
\<close>

definition scaleCoordinate :: "real \<Rightarrow> real option \<Rightarrow> real option \<Rightarrow> real \<Rightarrow> jsnum" where
  "scaleCoordinate v lo hi extent =
     js_div (Num ((v - numberOf lo) * extent)) (Num (numberOf hi - numberOf lo))"

record TravellingSalesmanApproximation =
  tsaBounds :: tsaBounds
  points :: "(jsnum \<times> jsnum) list"
  height :: real
  width :: real
  center :: "jsnum \<times> jsnum"
  distanceMatrix :: "nat \<Rightarrow> nat \<Rightarrow> jsnum"
  randomPath :: "nat list"

text \<open>
  \<^verbatim>\<open>generateDistanceMatrix\<close>, lines 379-395: the entry for \<open>i \<le> j\<close> is computed
  and copied to \<open>[j][i]\<close>. The matrix is read at indices below the number of points
  only.
\<close>

definition pointDistance :: "jsnum \<times> jsnum \<Rightarrow> jsnum \<times> jsnum \<Rightarrow> jsnum" where
  "pointDistance p q =
     js_sqrt (js_add (js_mul (js_sub (fst p) (fst q)) (js_sub (fst p) (fst q)))
                     (js_mul (js_sub (snd p) (snd q)) (js_sub (snd p) (snd q))))"

definition generateDistanceMatrix :: "(jsnum \<times> jsnum) list \<Rightarrow> nat \<Rightarrow> nat \<Rightarrow> jsnum" where
  "generateDistanceMatrix ps a b =
     (if a \<le> b then pointDistance (ps ! a) (ps ! b) else pointDistance (ps ! b) (ps ! a))"

text \<open>
  The constructor, lines 324-360, with \<^verbatim>\<open>normalizePoints\<close> (lines 397-433) and
  \<^verbatim>\<open>generateRandomPath\<close> (lines 435-441) in place.
\<close>

definition newTravellingSalesmanApproximation ::
  "point list \<Rightarrow> point option \<Rightarrow> TravellingSalesmanApproximation" where
  "newTravellingSalesmanApproximation pts c =
     (let b = fold growBounds pts nullBounds;
          h = numberOf (maxY b) - numberOf (minY b);
          w = numberOf (maxX b) - numberOf (minX b);
          ps = map (\<lambda>pt. (scaleCoordinate (fst pt) (minX b) (maxX b) w,
                          scaleCoordinate (snd pt) (minY b) (maxY b) h)) pts
      in \<lparr>tsaBounds = b, points = ps, height = h, width = w,
          center =
            (case c of
               None \<Rightarrow> (Num (w / 2), Num (h / 2))
             | Some ct \<Rightarrow> (scaleCoordinate (fst ct) (minX b) (maxX b) w,
                           scaleCoordinate (snd ct) (minY b) (maxY b) h)),
          distanceMatrix = generateDistanceMatrix ps,
          randomPath = [0..<length ps]\<rparr>)"

text \<open>\<^verbatim>\<open>this.height * this.height + this.width * this.width + 1\<close>.\<close>

definition farAway :: "TravellingSalesmanApproximation \<Rightarrow> jsnum" where
  "farAway T = Num (height T * height T + width T * width T + 1)"

text \<open>The loop over \<^verbatim>\<open>k\<close> of lines 460-466, for the point \<open>r = remaining[j]\<close>.\<close>

definition minimalDistance :: "TravellingSalesmanApproximation \<Rightarrow> nat list \<Rightarrow> nat \<Rightarrow> jsnum" where
  "minimalDistance T path r =
     fold (\<lambda>p m. if js_lt (distanceMatrix T p r) m then distanceMatrix T p r else m)
          path (farAway T)"

text \<open>
  The loop over \<^verbatim>\<open>j\<close> of lines 456-475; the state is
  \<^verbatim>\<open>(maximalDistanceToTour, indexInRemaining)\<close> and the result is
  \<^verbatim>\<open>indexInRemaining\<close>.
\<close>

definition farthestIndex ::
  "TravellingSalesmanApproximation \<Rightarrow> nat list \<Rightarrow> nat list \<Rightarrow> nat \<Rightarrow> nat" where
  "farthestIndex T remaining path i =
     snd (fold (\<lambda>j (maximalDistanceToTour, indexInRemaining).
                  if js_lt maximalDistanceToTour (minimalDistance T path (remaining ! j))
                  then (minimalDistance T path (remaining ! j), j)
                  else (maximalDistanceToTour, indexInRemaining))
               [i..<length (points T)] (Num (- 1), 0))"

text \<open>\<^verbatim>\<open>swap(path, i, j)\<close>, lines 497-503, on a copy of the array.\<close>

definition swap :: "nat list \<Rightarrow> nat \<Rightarrow> nat \<Rightarrow> nat list" where
  "swap path i j = (path[i := path ! j])[j := path ! i]"

text \<open>\<^verbatim>\<open>detour(before, insert, after)\<close>, lines 505-507.\<close>

definition detour :: "TravellingSalesmanApproximation \<Rightarrow> nat \<Rightarrow> nat \<Rightarrow> nat \<Rightarrow> jsnum" where
  "detour T before ins after =
     js_sub (js_add (distanceMatrix T before ins) (distanceMatrix T ins after))
            (distanceMatrix T before after)"

text \<open>
  The loop over \<^verbatim>\<open>k\<close> of lines 479-486; the state is
  \<^verbatim>\<open>(smallestDetour, indexInPath)\<close>.
\<close>

definition smallestDetour ::
  "TravellingSalesmanApproximation \<Rightarrow> nat list \<Rightarrow> nat \<Rightarrow> jsnum \<times> nat" where
  "smallestDetour T path r =
     fold (\<lambda>k (smallest, indexInPath).
             if js_lt (detour T (path ! k) r (path ! (k + 1))) smallest
             then (detour T (path ! k) r (path ! (k + 1)), k)
             else (smallest, indexInPath))
          [0..<length path - 1] (farAway T, 0)"

text \<open>Lines 487-491: the new point goes to the end or after \<^verbatim>\<open>indexInPath\<close>.\<close>

definition insertPoint :: "TravellingSalesmanApproximation \<Rightarrow> nat list \<Rightarrow> nat \<Rightarrow> nat list" where
  "insertPoint T path r =
     (case smallestDetour T path r of (smallest, indexInPath) \<Rightarrow>
        if js_lt (detour T (path ! (length path - 1)) r (path ! 0)) smallest
        then path @ [r]
        else take (indexInPath + 1) path @ r # drop (indexInPath + 1) path)"

text \<open>One pass of the loop over \<^verbatim>\<open>i\<close> of lines 449-492, on \<^verbatim>\<open>(remaining, path)\<close>.\<close>

definition solveStep ::
  "TravellingSalesmanApproximation \<Rightarrow> nat \<Rightarrow> nat list \<times> nat list \<Rightarrow> nat list \<times> nat list" where
  "solveStep T i st =
     (case st of (remaining, path) \<Rightarrow>
        (let remaining' = swap remaining (farthestIndex T remaining path i) i
         in (remaining', insertPoint T path (remaining' ! i))))"

text \<open>
  \<^verbatim>\<open>solve()\<close>, lines 443-495, returns the array \<^verbatim>\<open>[path]\<close>. With no points
  \<^verbatim>\<open>remaining[0]\<close> is \<^verbatim>\<open>undefined\<close> (\<open>None\<close>) and the path is \<^verbatim>\<open>[undefined]\<close>.
\<close>

definition solve :: "TravellingSalesmanApproximation \<Rightarrow> nat option list list" where
  "solve T =
     (case randomPath T of
        [] \<Rightarrow> [[None]]
      | r0 # _ \<Rightarrow>
          [map Some (snd (fold (solveStep T) [1..<length (points T)] (randomPath T, [r0])))])"

section \<open>getPointListData\<close>

text \<open>
  Lines 218-221: \<^verbatim>\<open>allClustersDataSorted = new Array(allClustersData.length)\<close>, then
  \<^verbatim>\<open>allClustersDataSorted[i] = allClustersData[paths[i]]\<close> for every index of
  \<^verbatim>\<open>paths\<close>. An element is \<open>None\<close> where the array holds \<^verbatim>\<open>undefined\<close>.
\<close>

fun pick :: "'a list \<Rightarrow> nat option \<Rightarrow> 'a option" where
  "pick gs None = None"
| "pick gs (Some k) = (if k < length gs then Some (gs ! k) else None)"

definition reorder :: "'a list \<Rightarrow> nat option list \<Rightarrow> 'a option list" where
  "reorder gs paths = map (pick gs) paths @ replicate (length gs - length paths) None"

text \<open>
  Lines 227-236: the ids of the groups in their final order, and the lookup from each id
  to the id of its group. Reading \<^verbatim>\<open>apartmentIds\<close> of \<^verbatim>\<open>undefined\<close> raises.
\<close>

fun flattenClusters ::
  "sortedClusterData option list \<Rightarrow> int list \<times> (int \<rightharpoonup> int) \<Rightarrow> result outcome" where
  "flattenClusters [] acc =
     Callback \<lparr>result.apartmentIds = fst acc, clusterLookup = snd acc\<rparr>"
| "flattenClusters (None # gs) acc = Throws (TypeError ''allClusterData is undefined'')"
| "flattenClusters (Some g # gs) acc =
     flattenClusters gs
       (fst acc @ allClusterData.apartmentIds g,
        fold (\<lambda>apartmentId lookup. lookup(apartmentId \<mapsto> clusterId g))
             (allClusterData.apartmentIds g) (snd acc))"

text \<open>Lines 207-225: the order of the groups after \<^verbatim>\<open>distanceSort\<close>.\<close>

definition finalOrder ::
  "bool \<Rightarrow> point \<Rightarrow> sortedClusterData list \<Rightarrow> sortedClusterData option list outcome" where
  "finalOrder tsp c allClustersData =
     (if tsp
      then
        (case solve (newTravellingSalesmanApproximation
                       (map allClusterData.coordinates allClustersData) (Some c)) of
           [] \<Rightarrow> Throws (TypeError ''paths is undefined'')
         | paths # _ \<Rightarrow> Callback (reorder allClustersData paths))
      else Callback (map Some allClustersData))"

text \<open>Line 161, \<^verbatim>\<open>params.center || this.getBboxArrCenter(bounds)\<close>.\<close>

definition effectiveCenter :: "getPointListDataParameters \<Rightarrow> point" where
  "effectiveCenter params =
     (case getPointListDataParameters.center params of
        Some ct \<Rightarrow> ct
      | None \<Rightarrow> getBboxArrCenter (bounds params))"

text \<open>
  Lines 158-225 on a supercluster index with methods \<open>gc\<close> (\<^verbatim>\<open>getClusters\<close>) and
  \<open>gl\<close> (\<^verbatim>\<open>getLeaves\<close>): the value of \<^verbatim>\<open>allClustersDataSorted\<close> when line 227 is
  reached.
\<close>

definition allClustersDataSorted ::
  "(bbox \<Rightarrow> real \<Rightarrow> feature list) \<Rightarrow> (int \<Rightarrow> real \<Rightarrow> jscount \<Rightarrow> feature list) \<Rightarrow>
     getPointListDataParameters \<Rightarrow> sortedClusterData option list outcome" where
  "allClustersDataSorted gc gl params =
     (case collectClusters gl (effectiveZoom params) (effectiveMaxCount (maxCount params))
             (gc (bounds params) (effectiveZoom params)) 0 of
        Inl e \<Rightarrow> Throws e
      | Inr allClustersData \<Rightarrow>
          finalOrder (travellingSalesmanApprox params) (effectiveCenter params)
            (distanceSort allClustersData (effectiveCenter params)))"

text \<open>\<^verbatim>\<open>getPointListData(params, callback)\<close>, lines 142-237.\<close>

definition getPointListData ::
  "GeoJSONWorkerSource \<Rightarrow> getPointListDataParameters \<Rightarrow> reply outcome" where
  "getPointListData w params =
     (case geoJSONIndexes w (getPointListDataParameters.source params) of
        None \<Rightarrow> Callback (ResultObject emptyResult)
      | Some (GeoJSONVT _) \<Rightarrow> Callback (ResultJSON emptyResult)
      | Some (Supercluster gc gl _) \<Rightarrow>
          (case allClustersDataSorted gc gl params of
             Throws e \<Rightarrow> Throws e
           | Callback groups \<Rightarrow>
               (case flattenClusters groups ([], Map.empty) of
                  Throws e \<Rightarrow> Throws e
                | Callback r \<Rightarrow> Callback (ResultObject r))))"

section \<open>The revision of the worker under \<^verbatim>\<open>src/unnamed/part_000\<close>\<close>







section \<open>Notions used in the proofs\<close>

text \<open>
  A distance that is a number is not negative: \<^verbatim>\<open>Math.sqrt\<close> returns a non-negative
  number or \<^verbatim>\<open>NaN\<close>.
\<close>

fun nonnegative :: "jsnum \<Rightarrow> bool" where
  "nonnegative (Num x) = (0 \<le> x)"
| "nonnegative NaN = False"

text \<open>
  The invariant of the loop over \<^verbatim>\<open>i\<close> in \<^verbatim>\<open>solve\<close>, before pass \<open>i\<close>, for
  \<open>n\<close> points: \<^verbatim>\<open>remaining\<close> is a permutation of the indices and \<^verbatim>\<open>path\<close> holds
  its first \<open>i\<close> entries in some order.
\<close>

definition tourInvariant :: "nat \<Rightarrow> nat \<Rightarrow> nat list \<times> nat list \<Rightarrow> bool" where
  "tourInvariant n i st \<longleftrightarrow>
     length (fst st) = n \<and> mset (fst st) = mset [0..<n] \<and> mset (snd st) = mset (take i (fst st))"



text \<open>The lookup that lines 227-232 build from the groups in their final order.\<close>

definition lookupOf :: "'a allClusterData_scheme list \<Rightarrow> (int \<rightharpoonup> int) \<Rightarrow> (int \<rightharpoonup> int)" where
  "lookupOf gs lk =
     fold (\<lambda>g. fold (\<lambda>apartmentId lookup. lookup(apartmentId \<mapsto> clusterId g))
                  (allClusterData.apartmentIds g)) gs lk"

section \<open>Concrete inputs\<close>

text \<open>The inputs at which the theorems below are evaluated.\<close>

definition exampleTiles :: GeoJSONIndex where
  "exampleTiles = GeoJSONVT (\<lambda>z x y. None)"

definition workerWithLoadedTile :: GeoJSONWorkerSource where
  "workerWithLoadedTile =
     \<lparr>geoJSONIndexes = [''places'' \<mapsto> exampleTiles], loaded = [''places'' \<mapsto> {7}]\<rparr>"

definition exampleEnv :: env where
  "exampleEnv =
     \<lparr>getJSON = (\<lambda>r. (None, JObject [(''type'', JString ''FeatureCollection'')])),
      JSON_parse = (\<lambda>s. if s = ''{}'' then Inr (JObject []) else Inl (Error ''SyntaxError'')),
      rewind = (\<lambda>d. d),
      supercluster_load = (\<lambda>opts fs. Inr exampleTiles),
      geojsonvt = (\<lambda>d opts. Inr exampleTiles)\<rparr>"

definition failingEnv :: env where
  "failingEnv = exampleEnv\<lparr>geojsonvt := (\<lambda>d opts. Inl (Error ''build failed''))\<rparr>"

definition literalData :: LoadGeoJSONParameters where
  "literalData =
     \<lparr>request = None, data = JString ''{}'', source = ''places'', cluster = False,
      superclusterOptions = JUndefined, geojsonVtOptions = JUndefined\<rparr>"

definition requestAndData :: LoadGeoJSONParameters where
  "requestAndData = literalData\<lparr>request := Some \<lparr>url = ''/places.geojson''\<rparr>\<rparr>"

definition neitherRequestNorData :: LoadGeoJSONParameters where
  "neitherRequestNorData = literalData\<lparr>data := JUndefined\<rparr>"

definition malformedData :: LoadGeoJSONParameters where
  "malformedData = literalData\<lparr>data := JString ''{''\<rparr>"

definition placesQuery :: getPointListDataParameters where
  "placesQuery =
     \<lparr>bounds = (0, 0, 10, 10), zoom = 3, maxCount = None, source = ''places'',
      minzoom = 0, maxzoom = 14, center = None, travellingSalesmanApprox = False\<rparr>"

text \<open>
  A cluster index over five points: at zoom 2 and above, the leaf 1, the aggregate 7
  (with leaves 2, 3 and 4) and the leaf 5; below, the aggregate alone.
  \<^verbatim>\<open>getLeaves\<close> returns at most \<^verbatim>\<open>limit\<close> leaves.
\<close>

definition leafAt :: "int \<Rightarrow> point \<Rightarrow> feature" where
  "leafAt n pt = \<lparr>feature_i = n, properties = None, coordinates = pt\<rparr>"

definition aggregate7 :: feature where
  "aggregate7 =
     \<lparr>feature_i = 0, properties = Some \<lparr>properties.cluster = True, cluster_id = 7\<rparr>,
      coordinates = (7, 7)\<rparr>"

definition leavesOf7 :: "feature list" where
  "leavesOf7 = [leafAt 2 (6, 6), leafAt 3 (7, 7), leafAt 4 (8, 8)]"

definition exampleGetClusters :: "bbox \<Rightarrow> real \<Rightarrow> feature list" where
  "exampleGetClusters b z =
     (if z < 2 then [aggregate7] else [leafAt 1 (9, 9), aggregate7, leafAt 5 (5, 5)])"

definition exampleGetLeaves :: "int \<Rightarrow> real \<Rightarrow> jscount \<Rightarrow> feature list" where
  "exampleGetLeaves cid z limit =
     (if cid = 7
      then (case limit of Finite k \<Rightarrow> take (nat k) leavesOf7 | Infinity \<Rightarrow> leavesOf7)
      else [])"

definition exampleClusters :: GeoJSONIndex where
  "exampleClusters = Supercluster exampleGetClusters exampleGetLeaves (\<lambda>z x y. None)"

definition clusterWorker :: GeoJSONWorkerSource where
  "clusterWorker = \<lparr>geoJSONIndexes = [''places'' \<mapsto> exampleClusters], loaded = Map.empty\<rparr>"

definition cappedQuery :: getPointListDataParameters where
  "cappedQuery = placesQuery\<lparr>maxCount := Some 2\<rparr>"

definition placesResult :: result where
  "placesResult =
     \<lparr>result.apartmentIds = [5, 2, 3, 4, 1],
      clusterLookup = [5 \<mapsto> 5, 2 \<mapsto> 7, 3 \<mapsto> 7, 4 \<mapsto> 7, 1 \<mapsto> 1]\<rparr>"

definition placesGroups :: "sortedClusterData list" where
  "placesGroups =
     [\<lparr>clusterId = 5, coordinates = (5, 5), apartmentIds = [5], distance = 0\<rparr>,
      \<lparr>clusterId = 7, coordinates = (6, 6), apartmentIds = [2, 3, 4], distance = 2\<rparr>,
      \<lparr>clusterId = 1, coordinates = (9, 9), apartmentIds = [1], distance = 32\<rparr>]"

definition cappedResult :: result where
  "cappedResult =
     \<lparr>result.apartmentIds = [2, 3, 1], clusterLookup = [2 \<mapsto> 7, 3 \<mapsto> 7, 1 \<mapsto> 1]\<rparr>"

definition zeroQuery :: getPointListDataParameters where
  "zeroQuery = placesQuery\<lparr>maxCount := Some 0\<rparr>"



section \<open>The ingest path and the loaded-tile markers\<close>

text \<open>
  C3, as the specification states it: an ingest request with both \<^verbatim>\<open>request\<close> and
  \<^verbatim>\<open>data\<close> present yields the invalid-input error. It does not: with both present
  \<^verbatim>\<open>loadGeoJSON\<close> passes the request to \<^verbatim>\<open>ajax.getJSON\<close> and delivers what that
  delivers, here a document and no error.
\<close>

theorem loadGeoJSON_request_and_data_counterexample:
  "loadGeoJSON exampleEnv requestAndData = getJSON exampleEnv \<lparr>url = ''/places.geojson''\<rparr>
   \<and> fst (loadGeoJSON exampleEnv requestAndData) = None"
  by (simp add: loadGeoJSON_def requestAndData_def literalData_def exampleEnv_def)

text \<open>
  C3, amended: a request that is present is fetched, whether or not \<^verbatim>\<open>data\<close> is
  present too, and \<^verbatim>\<open>loadGeoJSON\<close> adds no error of its own; without a request,
  \<^verbatim>\<open>data\<close> that is a string is parsed, and the invalid-input error is delivered through
  the callback when the parse fails or when \<^verbatim>\<open>data\<close> is not a string (so also when
  neither field is present).
\<close>

theorem loadGeoJSON_precedence:
  "(request params = Some r \<longrightarrow> loadGeoJSON E params = getJSON E r)
   \<and> (request params = None \<and> data params = JString s \<and> JSON_parse E s = Inr v \<longrightarrow>
        loadGeoJSON E params = (None, v))
   \<and> (request params = None \<and> data params = JString s \<and> JSON_parse E s = Inl e \<longrightarrow>
        loadGeoJSON E params = (Some invalidGeoJSON, JUndefined))
   \<and> (request params = None \<and> (\<forall>t. data params \<noteq> JString t) \<longrightarrow>
        loadGeoJSON E params = (Some invalidGeoJSON, JUndefined))"
  by (auto simp: loadGeoJSON_def split: jsvalue.splits)

theorem loadGeoJSON_precedence_witness:
  "loadGeoJSON exampleEnv requestAndData = getJSON exampleEnv \<lparr>url = ''/places.geojson''\<rparr>
   \<and> loadGeoJSON exampleEnv literalData = (None, JObject [])
   \<and> loadGeoJSON exampleEnv malformedData = (Some invalidGeoJSON, JUndefined)
   \<and> loadGeoJSON exampleEnv neitherRequestNorData = (Some invalidGeoJSON, JUndefined)"
  using loadGeoJSON_precedence [of requestAndData "\<lparr>url = ''/places.geojson''\<rparr>" exampleEnv]
        loadGeoJSON_precedence [of literalData _ exampleEnv "''{}''" "JObject []"]
        loadGeoJSON_precedence [of malformedData _ exampleEnv "''{''" _ "Error ''SyntaxError''"]
        loadGeoJSON_precedence [of neitherRequestNorData _ exampleEnv]
  by (simp add: requestAndData_def literalData_def malformedData_def neitherRequestNorData_def
        exampleEnv_def)

text \<open>
  C5: when the index construction inside the \<^verbatim>\<open>try\<close> of \<^verbatim>\<open>loadData\<close> raises, the
  raised error is what the callback receives and the worker's state is the state before
  the call: the index installed under the source id and its loaded-tile markers are
  unchanged.
\<close>

theorem loadData_build_failure:
  assumes "load params = (None, d)" and "truthy d" and "typeof_object d"
    and "buildIndex E params (rewind E d) = Inl e"
  shows "loadData load E w params = (Some e, w)"
  using assms by (simp add: loadData_def)

theorem loadData_build_failure_witness:
  "loadData (loadGeoJSON failingEnv) failingEnv workerWithLoadedTile literalData
     = (Some (Error ''build failed''), workerWithLoadedTile)"
  using loadData_build_failure [of "loadGeoJSON failingEnv" literalData "JObject []" failingEnv
          "Error ''build failed''" workerWithLoadedTile]
  by (simp add: loadGeoJSON_def buildIndex_def failingEnv_def exampleEnv_def literalData_def)




section \<open>Queries on a source without a cluster index\<close>

lemma getPointListData_unknown_source:
  "geoJSONIndexes w (getPointListDataParameters.source params) = None \<Longrightarrow>
     getPointListData w params = Callback (ResultObject emptyResult)"
  by (simp add: getPointListData_def)

lemma getPointListData_after_removeSource:
  "getPointListData (removeSource w (getPointListDataParameters.source params)) params
     = Callback (ResultObject emptyResult)"
  by (simp add: getPointListData_def removeSource_def)

text \<open>
  C6 at a source bound to a geojson-vt index, which has no \<^verbatim>\<open>getClusters\<close>: the
  callback receives the string \<^verbatim>\<open>JSON.stringify(result)\<close>, not the object
  \<^verbatim>\<open>result\<close> that the unknown-source branch four lines earlier and the final return
  pass.
\<close>

theorem getPointListData_tile_index_returns_string:
  "getPointListData workerWithLoadedTile placesQuery = Callback (ResultJSON emptyResult)
   \<and> getPointListData workerWithLoadedTile placesQuery \<noteq> Callback (ResultObject emptyResult)"
  by (simp add: getPointListData_def workerWithLoadedTile_def placesQuery_def exampleTiles_def)

section \<open>The sort by distance\<close>

lemma sortInsert_difference:
  "sortInsert (\<lambda>a b. f a - f b) x ys = insort_key f x ys"
  by (induction ys) simp_all

lemma arraySort_difference:
  "arraySort (\<lambda>a b. f a - (f b :: real)) xs = sort_key f xs"
proof -
  have "sortInsert (\<lambda>a b. f a - f b) = insort_key f"
    by (intro ext) (rule sortInsert_difference)
  then show ?thesis
    by (simp add: arraySort_def sort_key_def)
qed

lemma distance_withDistance [simp]:
  "distance (withDistance m c g) = m c (allClusterData.coordinates g)"
  "allClusterData.coordinates (withDistance m c g) = allClusterData.coordinates g"
  "allClusterData.apartmentIds (withDistance m c g) = allClusterData.apartmentIds g"
  "clusterId (withDistance m c g) = clusterId g"
  by (simp_all add: withDistance_def)

lemma distanceSort_eq:
  "distanceSort gs c = sort_key distance (map (withDistance calculateDistarnce c) gs)"
  by (simp add: distanceSort_def arraySort_difference)


lemma mset_distanceSort:
  "mset (distanceSort gs c) = mset (map (withDistance calculateDistarnce c) gs)"
  by (simp add: distanceSort_eq)




section \<open>The tour is a permutation\<close>

lemma js_sqrt_cases: "js_sqrt v = NaN \<or> nonnegative (js_sqrt v)"
  by (cases v) simp_all

lemma distanceMatrix_new_cases:
  "distanceMatrix (newTravellingSalesmanApproximation pts c) a b = NaN
   \<or> nonnegative (distanceMatrix (newTravellingSalesmanApproximation pts c) a b)"
  by (simp add: newTravellingSalesmanApproximation_def Let_def generateDistanceMatrix_def
        pointDistance_def js_sqrt_cases)

lemma nonnegative_farAway: "nonnegative (farAway T)"
  by (simp add: farAway_def)

lemma fold_min_nonnegative:
  assumes "\<And>p. d p = NaN \<or> nonnegative (d p)" and "nonnegative m"
  shows "nonnegative (fold (\<lambda>p m. if js_lt (d p) m then d p else m) path m)"
  using assms(2)
proof (induction path arbitrary: m)
  case Nil
  then show ?case by simp
next
  case (Cons p path)
  from assms(1) [of p] have "nonnegative (if js_lt (d p) m then d p else m)"
    using Cons.prems by (cases "d p"; cases m) auto
  then show ?case
    using Cons.IH by simp
qed

lemma nonnegative_minimalDistance:
  assumes "\<And>a b. distanceMatrix T a b = NaN \<or> nonnegative (distanceMatrix T a b)"
  shows "nonnegative (minimalDistance T path r)"
  unfolding minimalDistance_def
  by (rule fold_min_nonnegative) (simp_all add: assms nonnegative_farAway)

lemma fold_max_index_in:
  assumes "set js \<subseteq> S" and "idx \<in> S"
  shows "snd (fold (\<lambda>j (mx, ix). if js_lt mx (md j) then (md j, j) else (mx, ix)) js (m, idx)) \<in> S"
  using assms
  by (induction js arbitrary: m idx) auto

lemma farthestIndex_range:
  assumes dm: "\<And>a b. distanceMatrix T a b = NaN \<or> nonnegative (distanceMatrix T a b)"
    and i: "i < length (points T)"
  shows "i \<le> farthestIndex T remaining path i \<and> farthestIndex T remaining path i < length (points T)"
proof -
  let ?md = "\<lambda>j. minimalDistance T path (remaining ! j)"
  let ?n = "length (points T)"
  have first: "js_lt (Num (- 1)) (?md i)"
    using nonnegative_minimalDistance [OF dm, of path "remaining ! i"]
    by (cases "?md i") simp_all
  have "[i..<?n] = i # [Suc i..<?n]"
    using i by (simp add: upt_conv_Cons)
  then have "farthestIndex T remaining path i =
      snd (fold (\<lambda>j (mx, ix). if js_lt mx (?md j) then (?md j, j) else (mx, ix))
             [Suc i..<?n] (?md i, i))"
    using first by (simp add: farthestIndex_def)
  moreover have "snd (fold (\<lambda>j (mx, ix). if js_lt mx (?md j) then (?md j, j) else (mx, ix))
             [Suc i..<?n] (?md i, i)) \<in> {i..<?n}"
    by (rule fold_max_index_in) (use i in auto)
  ultimately show ?thesis by simp
qed

lemma mset_swap_path:
  "i < length path \<Longrightarrow> j < length path \<Longrightarrow> mset (swap path i j) = mset path"
  by (simp add: swap_def mset_swap)

lemma length_swap [simp]: "length (swap path i j) = length path"
  by (simp add: swap_def)

lemma take_swap: "k \<le> i \<Longrightarrow> k \<le> j \<Longrightarrow> take k (swap path i j) = take k path"
  by (simp add: swap_def)

lemma mset_insertPoint: "mset (insertPoint T path r) = add_mset r (mset path)"
proof -
  have "mset (take k path @ r # drop k path) = add_mset r (mset path)" for k
    by (metis (no_types) append_take_drop_id mset.simps(2) mset_append union_mset_add_mset_right)
  then show ?thesis
    by (simp add: insertPoint_def split: prod.splits)
qed

lemma solveStep_invariant:
  assumes dm: "\<And>a b. distanceMatrix T a b = NaN \<or> nonnegative (distanceMatrix T a b)"
    and n: "length (points T) = n" and i: "i < n"
    and inv: "tourInvariant n i st"
  shows "tourInvariant n (Suc i) (solveStep T i st)"
proof -
  obtain remaining path where st: "st = (remaining, path)" by (cases st)
  let ?ix = "farthestIndex T remaining path i"
  let ?r' = "swap remaining ?ix i"
  from farthestIndex_range [OF dm, of i remaining path] n i
  have ix: "i \<le> ?ix" "?ix < n" by simp_all
  from inv st have len: "length remaining = n" and perm: "mset remaining = mset [0..<n]"
    and path: "mset path = mset (take i remaining)"
    by (simp_all add: tourInvariant_def)
  have "mset ?r' = mset [0..<n]"
    using mset_swap_path [of ?ix remaining i] ix i len perm by simp
  moreover have "take (Suc i) ?r' = take i remaining @ [?r' ! i]"
    using i len ix by (simp add: take_Suc_conv_app_nth take_swap)
  ultimately show ?thesis
    using len path by (simp add: st solveStep_def Let_def tourInvariant_def mset_insertPoint)
qed

lemma fold_solveStep_invariant:
  assumes dm: "\<And>a b. distanceMatrix T a b = NaN \<or> nonnegative (distanceMatrix T a b)"
    and n: "length (points T) = n"
  shows "1 \<le> m \<Longrightarrow> m \<le> n \<Longrightarrow>
     tourInvariant n m (fold (solveStep T) [1..<m] ([0..<n], [0]))"
proof (induction m)
  case 0
  then show ?case by simp
next
  case (Suc m)
  show ?case
  proof (cases "m = 0")
    case True
    with Suc.prems show ?thesis
      by (simp add: tourInvariant_def take_Suc_conv_app_nth)
  next
    case False
    with Suc have "tourInvariant n m (fold (solveStep T) [1..<m] ([0..<n], [0]))"
      by simp
    from solveStep_invariant [OF dm n _ this] Suc.prems False
    show ?thesis by simp
  qed
qed

lemma solve_new_path:
  assumes "pts \<noteq> []"
  shows "\<exists>tour. solve (newTravellingSalesmanApproximation pts c) = [map Some tour]
               \<and> mset tour = mset [0..<length pts]"
proof -
  let ?T = "newTravellingSalesmanApproximation pts c"
  let ?n = "length pts"
  have n: "length (points ?T) = ?n" and rp: "randomPath ?T = [0..<?n]"
    by (simp_all add: newTravellingSalesmanApproximation_def Let_def)
  from assms have pos: "1 \<le> ?n" by (cases pts) simp_all
  let ?st = "fold (solveStep ?T) [1..<?n] ([0..<?n], [0])"
  have "tourInvariant ?n ?n ?st"
    by (rule fold_solveStep_invariant [OF distanceMatrix_new_cases n pos]) simp
  then have "mset (snd ?st) = mset [0..<?n]"
    by (simp add: tourInvariant_def)
  moreover have "solve ?T = [map Some (snd ?st)]"
    using assms by (simp add: solve_def rp n list.case_eq_if)
  ultimately show ?thesis by blast
qed

lemma solve_new_short:
  assumes "pts \<noteq> []" and "length pts \<le> 2"
  shows "solve (newTravellingSalesmanApproximation pts c) = [map Some [0..<length pts]]"
proof -
  let ?T = "newTravellingSalesmanApproximation pts c"
  have n: "length (points ?T) = length pts" and rp: "randomPath ?T = [0..<length pts]"
    by (simp_all add: newTravellingSalesmanApproximation_def Let_def)
  from assms consider "length pts = 1" | "length pts = 2"
    by (cases pts) (auto simp: le_Suc_eq)
  then show ?thesis
  proof cases
    case 1
    then show ?thesis by (simp add: solve_def rp n)
  next
    case 2
    from farthestIndex_range [OF distanceMatrix_new_cases, of 1 pts c "[0, 1]" "[0]"] 2 n
    have ix: "farthestIndex ?T [0, 1] [0] 1 = 1" by simp
    have up: "[0..<2] = [0, Suc 0]" "[Suc 0..<2] = [Suc 0]"
      by (simp_all add: upt_conv_Cons)
    have "insertPoint ?T [0] 1 = [0, 1]"
      by (simp add: insertPoint_def smallestDetour_def)
    then show ?thesis
      using 2 ix by (simp add: solve_def rp n up solveStep_def Let_def swap_def)
  qed
qed

text \<open>
  C4: for a sequence of \<open>n \<ge> 1\<close> points, duplicates included, \<^verbatim>\<open>solve()\<close> returns
  one path; the path is a list of \<open>n\<close> indices in which every index below \<open>n\<close>
  occurs exactly once, and for \<open>n \<le> 2\<close> it is the input order \<open>[0..<n]\<close>.
\<close>

theorem solve_visits_every_index_once:
  assumes "1 \<le> length pts"
  shows "\<exists>tour. solve (newTravellingSalesmanApproximation pts c) = [map Some tour]
           \<and> length tour = length pts
           \<and> bij_betw ((!) tour) {..<length pts} {..<length pts}
           \<and> (length pts \<le> 2 \<longrightarrow> tour = [0..<length pts])"
proof -
  from assms have ne: "pts \<noteq> []" by auto
  from solve_new_path [OF ne, of c] obtain tour where
    tour: "solve (newTravellingSalesmanApproximation pts c) = [map Some tour]"
    and perm: "mset tour = mset [0..<length pts]"
    by blast
  from perm have len: "length tour = length pts"
    by (metis length_upt mset_eq_length minus_nat.diff_0)
  from perm have "distinct tour"
    by (metis distinct_upt mset_eq_imp_distinct_iff)
  moreover from perm have "set tour = {..<length pts}"
    by (metis atLeast_upt mset_eq_setD)
  ultimately have bij: "bij_betw ((!) tour) {..<length pts} {..<length pts}"
    using len by (simp add: bij_betw_nth)
  have "tour = [0..<length pts]" if "length pts \<le> 2"
  proof -
    from solve_new_short [OF ne that, of c] tour
    have "map Some tour = map Some [0..<length pts]" by simp
    then show ?thesis by (simp add: inj_map_eq_map)
  qed
  with tour len bij show ?thesis by blast
qed

theorem solve_visits_every_index_once_witness:
  "solve (newTravellingSalesmanApproximation [(0, 0), (3, 4)] None) = [[Some 0, Some 1]]
   \<and> (\<exists>tour. solve (newTravellingSalesmanApproximation [(0, 0), (3, 4), (0, 4)] None)
                 = [map Some tour]
               \<and> length tour = 3 \<and> bij_betw ((!) tour) {..<3} {..<3})"
  using solve_visits_every_index_once [of "[(0, 0), (3, 4)]" None]
        solve_visits_every_index_once [of "[(0, 0), (3, 4), (0, 4)]" None]
  by (auto simp: numeral_2_eq_2 numeral_3_eq_3 upt_conv_Cons)

section \<open>The groups of a query and its result\<close>

subsection \<open>reorder\<close>


lemma reorder_permutation:
  assumes "mset tour = mset [0..<length gs]"
  shows "reorder gs (map Some tour) = map Some (map ((!) gs) tour)"
proof -
  from assms have "set tour = {0..<length gs}"
    by (metis mset_eq_setD set_upt)
  then have "\<forall>k \<in> set tour. k < length gs" by simp
  moreover from assms have "length tour = length gs"
    by (metis length_upt mset_eq_length minus_nat.diff_0)
  ultimately show ?thesis by (simp add: reorder_def)
qed


subsection \<open>flatten\<close>

lemma flattenClusters_Some:
  "flattenClusters (map Some gs) acc =
     Callback \<lparr>result.apartmentIds = fst acc @ concat (map allClusterData.apartmentIds gs),
               clusterLookup = lookupOf gs (snd acc)\<rparr>"
  by (induction gs arbitrary: acc) (simp_all add: lookupOf_def)


lemma lookupOf_Nil [simp]: "lookupOf [] lk = lk"
  by (simp add: lookupOf_def)






subsection \<open>The collecting loops\<close>








subsection \<open>The result of a query\<close>

lemma apartmentIds_withDistance:
  "map allClusterData.apartmentIds (map (withDistance m c) gs) = map allClusterData.apartmentIds gs"
  by simp




subsection \<open>When a query completes\<close>

text \<open>
  A query on a cluster index completes through its callback when every expansion is
  non-empty and, if the tour is asked for, the bounding box holds a cluster. With the tour
  and no cluster, line 228 reads \<^verbatim>\<open>apartmentIds\<close> of \<^verbatim>\<open>undefined\<close>.
\<close>

lemma collectClusters_returns:
  assumes "\<forall>c \<in> set cs. snd (clusterMembers gl z mc c) \<noteq> []"
  shows "\<exists>gs. collectClusters gl z mc cs cnt = Inr gs \<and> (cs \<noteq> [] \<longrightarrow> gs \<noteq> [])"
  using assms
proof (induction cs arbitrary: cnt)
  case Nil
  then show ?case by simp
next
  case (Cons c cs)
  obtain cid fs where cm: "clusterMembers gl z mc c = (cid, fs)"
    by (cases "clusterMembers gl z mc c")
  with Cons.prems obtain f fs' where fs: "fs = f # fs'"
    by (cases fs) auto
  from Cons.IH [of "cnt + length fs"] Cons.prems obtain gs where
    "collectClusters gl z mc cs (cnt + length fs) = Inr gs"
    by auto
  with cm fs show ?case by simp
qed

lemma getPointListData_returns:
  assumes idx: "geoJSONIndexes w (getPointListDataParameters.source params)
                  = Some (Supercluster gc gl gt)"
    and members: "\<forall>c \<in> set (gc (bounds params) (effectiveZoom params)).
                    snd (clusterMembers gl (effectiveZoom params)
                           (effectiveMaxCount (maxCount params)) c) \<noteq> []"
    and tour: "travellingSalesmanApprox params \<longrightarrow> gc (bounds params) (effectiveZoom params) \<noteq> []"
  shows "\<exists>r. getPointListData w params = Callback (ResultObject r)"
proof -
  let ?c = "effectiveCenter params"
  from collectClusters_returns [OF members, of 0] obtain gs where
    gs: "collectClusters gl (effectiveZoom params) (effectiveMaxCount (maxCount params))
           (gc (bounds params) (effectiveZoom params)) 0 = Inr gs"
    and ne: "gc (bounds params) (effectiveZoom params) \<noteq> [] \<longrightarrow> gs \<noteq> []"
    by blast
  have "\<exists>groups. finalOrder (travellingSalesmanApprox params) ?c (distanceSort gs ?c)
          = Callback (map Some groups)"
  proof (cases "travellingSalesmanApprox params")
    case False
    then show ?thesis by (simp add: finalOrder_def)
  next
    case True
    with tour ne have "gs \<noteq> []" by simp
    then have "distanceSort gs ?c \<noteq> []"
      by (metis mset_distanceSort mset_zero_iff map_is_Nil_conv)
    then have "map allClusterData.coordinates (distanceSort gs ?c) \<noteq> []" by simp
    from solve_new_path [OF this, of "Some ?c"] obtain t where
      "solve (newTravellingSalesmanApproximation
                (map allClusterData.coordinates (distanceSort gs ?c)) (Some ?c)) = [map Some t]"
      "mset t = mset [0..<length (distanceSort gs ?c)]"
      by auto
    with True have "finalOrder (travellingSalesmanApprox params) ?c (distanceSort gs ?c)
        = Callback (map Some (map ((!) (distanceSort gs ?c)) t))"
      by (simp add: finalOrder_def reorder_permutation)
    then show ?thesis by blast
  qed
  then obtain groups where
    "finalOrder (travellingSalesmanApprox params) ?c (distanceSort gs ?c)
       = Callback (map Some groups)"
    by blast
  with idx gs show ?thesis
    by (simp add: getPointListData_def allClustersDataSorted_def flattenClusters_Some)
qed

lemma getPointListData_tour_without_clusters:
  assumes "geoJSONIndexes w (getPointListDataParameters.source params)
             = Some (Supercluster gc gl gt)"
    and "gc (bounds params) (effectiveZoom params) = []"
    and "travellingSalesmanApprox params"
  shows "getPointListData w params = Throws (TypeError ''allClusterData is undefined'')"
  using assms
  by (simp add: getPointListData_def allClustersDataSorted_def distanceSort_def finalOrder_def
        solve_def newTravellingSalesmanApproximation_def Let_def reorder_def)

subsection \<open>The concrete queries\<close>

lemmas example_defs = leafAt_def aggregate7_def leavesOf7_def exampleGetClusters_def
  exampleGetLeaves_def exampleClusters_def clusterWorker_def placesQuery_def cappedQuery_def

lemmas plan_defs = getPointListData_def allClustersDataSorted_def effectiveZoom_def
  effectiveMaxCount_def effectiveCenter_def getBboxArrCenter_def clusterMembers_def
  finalOrder_def distanceSort_def arraySort_def withDistance_def calculateDistarnce_def

lemmas ex_defs = example_defs placesResult_def placesGroups_def cappedResult_def zeroQuery_def


lemma placesQuery_groups:
  "allClustersDataSorted exampleGetClusters exampleGetLeaves placesQuery
     = Callback (map Some placesGroups)"
  by (simp add: ex_defs plan_defs power2_eq_square)







section \<open>The point list: order, identifiers and the cap\<close>













end
